theory Spec2Isabelle
  imports Main
begin

section \<open>JavaScript values used by the trace-context plugin\<close>

text \<open>
  The plugin is a Nitro server plugin written in TypeScript. Strings are modelled as
  \<open>string\<close>: header values and request paths reach the plugin as one code unit per
  byte, which is what a \<open>char\<close> holds. \<open>undefined\<close> is \<open>None\<close>.
\<close>

text \<open>\<open>String.prototype.split\<close> with a one-character separator: every occurrence of the
  separator ends a part, so the empty string gives one empty part.\<close>

fun split_on :: "char \<Rightarrow> string \<Rightarrow> string list" where
  "split_on sep [] = [[]]"
| "split_on sep (x # xs) =
     (if x = sep then [] # split_on sep xs
      else (case split_on sep xs of
              [] \<Rightarrow> [[x]]
            | p # ps \<Rightarrow> (x # p) # ps))"

text \<open>\<open>Array.prototype.join\<close> with a one-character separator.\<close>

fun join_with :: "char \<Rightarrow> string list \<Rightarrow> string" where
  "join_with sep [] = []"
| "join_with sep [p] = p"
| "join_with sep (p # q # ps) = p @ sep # join_with sep (q # ps)"

text \<open>\<open>String.prototype.startsWith\<close>.\<close>

definition startsWith :: "string \<Rightarrow> string \<Rightarrow> bool" where
  "startsWith s p = (take (length p) s = p)"

text \<open>A JavaScript number as far as the plugin produces one: \<open>parseInt\<close> gives \<open>NaN\<close> or
  an integer. \<open>Num n\<close> stands for the Number value of the mathematical integer \<open>n\<close>
  (exact below \<open>2^53\<close>).\<close>

datatype js_number = NaN | Num int

definition is_white_space :: "char \<Rightarrow> bool" where
  "is_white_space c = ((of_char c :: nat) \<in> {9, 10, 11, 12, 13, 32, 160})"

definition is_digit :: "char \<Rightarrow> bool" where
  "is_digit c = (48 \<le> (of_char c :: nat) \<and> (of_char c :: nat) \<le> 57)"

definition is_lower_hex :: "char \<Rightarrow> bool" where
  "is_lower_hex c = (is_digit c \<or> (97 \<le> (of_char c :: nat) \<and> (of_char c :: nat) \<le> 102))"

definition is_hex :: "char \<Rightarrow> bool" where
  "is_hex c = (is_lower_hex c \<or> (65 \<le> (of_char c :: nat) \<and> (of_char c :: nat) \<le> 70))"

definition hex_value :: "char \<Rightarrow> int" where
  "hex_value c =
     (if is_digit c then int (of_char c) - 48
      else if is_lower_hex c then int (of_char c) - 87
      else int (of_char c) - 55)"

definition hex_number :: "string \<Rightarrow> int" where
  "hex_number ds = foldl (\<lambda>acc d. 16 * acc + hex_value d) 0 ds"

text \<open>\<open>parseInt(s, 16)\<close>: leading white space is skipped, one sign is read, a \<open>0x\<close> or
  \<open>0X\<close> prefix is dropped, and the longest run of hexadecimal digits that follows is the
  value; with no digit there the result is \<open>NaN\<close>.\<close>

definition parseInt16 :: "string \<Rightarrow> js_number" where
  "parseInt16 s =
     (let s1 = dropWhile is_white_space s;
          negative = (s1 \<noteq> [] \<and> hd s1 = CHR ''-'');
          s2 = (if s1 \<noteq> [] \<and> (hd s1 = CHR ''+'' \<or> hd s1 = CHR ''-'') then tl s1 else s1);
          s3 = (if startsWith s2 ''0x'' \<or> startsWith s2 ''0X'' then drop 2 s2 else s2);
          z = takeWhile is_hex s3
      in if z = [] then NaN
         else Num ((if negative then - 1 else 1) * hex_number z))"

section \<open>The traceparent header\<close>

text \<open>The remote span context the request hook builds from the header
  (\<open>{ traceId, spanId, traceFlags, isRemote: true }\<close>).\<close>

record span_context =
  traceId :: string
  spanId :: string
  traceFlags :: js_number
  isRemote :: bool

text \<open>The first steps of the request hook: the header is read, a missing or empty value
  returns early, the value is split on \<open>-\<close>, and anything but four parts returns early.
  \<open>None\<close> is the early return.\<close>

definition traceparent_parts :: "string option \<Rightarrow> string list option" where
  "traceparent_parts traceparent =
     (case traceparent of
        None \<Rightarrow> None
      | Some tp \<Rightarrow>
          if tp = [] then None
          else (let parts = split_on CHR ''-'' tp
                in if length parts \<noteq> 4 then None else Some parts))"

text \<open>\<open>const [, incomingTraceId, parentSpanId, traceFlags] = parts\<close> and the object literal
  that follows. The version part is skipped by the destructuring.\<close>

fun remoteSpanContext :: "string list \<Rightarrow> span_context option" where
  "remoteSpanContext [version, incomingTraceId, parentSpanId, flags] =
     Some \<lparr> traceId = incomingTraceId, spanId = parentSpanId,
            traceFlags = parseInt16 flags, isRemote = True \<rparr>"
| "remoteSpanContext parts = None"

text \<open>The header grammar of the W3C format as the specification gives it: four
  hyphen-joined fields of 2, 32, 16 and 2 hexadecimal characters, the two identifiers in
  lower case.\<close>

definition w3c_traceparent :: "string \<Rightarrow> bool" where
  "w3c_traceparent h =
     (length h = 55 \<and> h ! 2 = CHR ''-'' \<and> h ! 35 = CHR ''-'' \<and> h ! 52 = CHR ''-''
      \<and> list_all is_hex (take 2 h)
      \<and> list_all is_lower_hex (take 32 (drop 3 h))
      \<and> list_all is_lower_hex (take 16 (drop 36 h))
      \<and> list_all is_hex (drop 53 h))"

section \<open>Regular expressions\<close>

text \<open>
  The plugin uses the runtime's \<open>RegExp\<close> twice: the regular expression literal that
  classifies the configured pattern, and \<open>new RegExp(pattern)\<close> with
  \<open>String.prototype.replace\<close> for the configured rule. What follows is the ECMAScript
  matching semantics (no flags) for the patterns built from literal characters, \<open>.\<close>,
  \<open>^\<close>, \<open>$\<close>, character classes with ranges and negation, capturing and
  \<open>(?:\<close> groups, alternation, the quantifiers \<open>*\<close>, \<open>+\<close>, \<open>?\<close> and their lazy
  forms, and a backslash before a syntax character, \<open>/\<close> or \<open>-\<close>.
\<close>

datatype regex =
    REmpty
  | RChar char
  | RAny
  | RClass bool "(char \<times> char) list"
  | RBol
  | REol
  | RSeq regex regex
  | RAlt regex regex
  | RStar bool regex
  | RPlus bool regex
  | ROpt bool regex
  | RGroup nat regex

text \<open>A match state: the end index, the input that is left, and the captures (one entry
  per capturing group, \<open>None\<close> for \<open>undefined\<close>).\<close>

type_synonym mstate = "nat \<times> string \<times> string option list"

definition is_line_terminator :: "char \<Rightarrow> bool" where
  "is_line_terminator c = ((of_char c :: nat) \<in> {10, 13})"

definition in_class :: "(char \<times> char) list \<Rightarrow> char \<Rightarrow> bool" where
  "in_class items c =
     list_ex (\<lambda>(lo, hi). (of_char lo :: nat) \<le> of_char c \<and> (of_char c :: nat) \<le> of_char hi) items"

fun groups_in :: "regex \<Rightarrow> nat list" where
  "groups_in (RSeq a b) = groups_in a @ groups_in b"
| "groups_in (RAlt a b) = groups_in a @ groups_in b"
| "groups_in (RStar g a) = groups_in a"
| "groups_in (RPlus g a) = groups_in a"
| "groups_in (ROpt g a) = groups_in a"
| "groups_in (RGroup n a) = n # groups_in a"
| "groups_in r = []"

text \<open>Each iteration of a quantified atom starts with the atom's own captures reset.\<close>

definition clear_groups :: "regex \<Rightarrow> mstate \<Rightarrow> mstate" where
  "clear_groups a st =
     (case st of (i, s, caps) \<Rightarrow> (i, s, foldr (\<lambda>n cs. cs[n - 1 := None]) (groups_in a) caps))"

text \<open>An optional iteration that ends where it began is rejected: \<open>consumed x y\<close> says
  that less input is left in \<open>y\<close> than in \<open>x\<close>.\<close>

definition consumed :: "mstate \<Rightarrow> mstate \<Rightarrow> bool" where
  "consumed x y = (length (fst (snd y)) < length (fst (snd x)))"

fun rweight :: "regex \<Rightarrow> nat" where
  "rweight (RSeq a b) = Suc (rweight a + rweight b)"
| "rweight (RAlt a b) = Suc (rweight a + rweight b)"
| "rweight (RStar g a) = Suc (rweight a)"
| "rweight (RPlus g a) = Suc (Suc (rweight a))"
| "rweight (ROpt g a) = Suc (rweight a)"
| "rweight (RGroup n a) = Suc (rweight a)"
| "rweight r = 0"

text \<open>\<open>matches r st\<close> lists the states in which \<open>r\<close> can end when started in \<open>st\<close>, in
  the order in which the backtracking matcher tries them; the matcher's answer is the
  first one that the rest of the pattern accepts.\<close>

function matches :: "regex \<Rightarrow> mstate \<Rightarrow> mstate list" where
  "matches REmpty st = [st]"
| "matches (RChar c) st =
     (case st of (i, s, caps) \<Rightarrow>
        (case s of [] \<Rightarrow> [] | x # xs \<Rightarrow> if x = c then [(Suc i, xs, caps)] else []))"
| "matches RAny st =
     (case st of (i, s, caps) \<Rightarrow>
        (case s of [] \<Rightarrow> []
         | x # xs \<Rightarrow> if is_line_terminator x then [] else [(Suc i, xs, caps)]))"
| "matches (RClass negated items) st =
     (case st of (i, s, caps) \<Rightarrow>
        (case s of [] \<Rightarrow> []
         | x # xs \<Rightarrow> if in_class items x \<noteq> negated then [(Suc i, xs, caps)] else []))"
| "matches RBol st = (if fst st = 0 then [st] else [])"
| "matches REol st = (if fst (snd st) = [] then [st] else [])"
| "matches (RSeq a b) st = concat (map (matches b) (matches a st))"
| "matches (RAlt a b) st = matches a st @ matches b st"
| "matches (RStar greedy a) st =
     (let again = concat (map (matches (RStar greedy a))
                    (filter (consumed st) (matches a (clear_groups a st))))
      in if greedy then again @ [st] else st # again)"
| "matches (RPlus greedy a) st =
     concat (map (matches (RStar greedy a)) (matches a (clear_groups a st)))"
| "matches (ROpt greedy a) st =
     (let once = filter (consumed st) (matches a (clear_groups a st))
      in if greedy then once @ [st] else st # once)"
| "matches (RGroup n a) st =
     map (\<lambda>y. (fst y, fst (snd y),
                (snd (snd y))[n - 1 := Some (take (fst y - fst st) (fst (snd st)))]))
         (matches a st)"
  by pat_completeness auto
termination
  by (relation "measures [\<lambda>(r, st). rweight r, \<lambda>(r, st). length (fst (snd st))]")
     (auto simp: consumed_def)

text \<open>The result of \<open>RegExp.prototype.exec\<close>: where the match starts, the matched text,
  and the captures.\<close>

record rmatch =
  index :: nat
  matched :: string
  captures :: "string option list"

text \<open>\<open>exec\<close> without the global flag: the match is tried at index 0, then 1, and so on
  to the end of the input. \<open>search re n i s\<close> is at index \<open>i\<close> with \<open>s\<close> left.\<close>

fun search :: "regex \<Rightarrow> nat \<Rightarrow> nat \<Rightarrow> string \<Rightarrow> rmatch option" where
  "search re n i [] =
     (case matches re (i, [], replicate n None) of
        [] \<Rightarrow> None
      | y # ys \<Rightarrow> Some \<lparr> index = i, matched = [], captures = snd (snd y) \<rparr>)"
| "search re n i (c # cs) =
     (case matches re (i, c # cs, replicate n None) of
        [] \<Rightarrow> search re n (Suc i) cs
      | y # ys \<Rightarrow> Some \<lparr> index = i, matched = take (fst y - i) (c # cs),
                        captures = snd (snd y) \<rparr>)"

subsection \<open>Pattern text to regular expression\<close>

text \<open>The pattern is read one character at a time. Open groups are kept on a stack; each
  level holds the alternatives already closed by \<open>|\<close> and the terms of the current one,
  newest first. A term is tagged: an \<open>Atom\<close> may take a quantifier, a \<open>Quantified\<close>
  term may take the \<open>?\<close> that makes it lazy, a \<open>Closed\<close> one takes neither.\<close>

datatype tkind = Atom | Quantified | Closed

datatype pending = NoAtom | HaveAtom char | HaveDash char

datatype pmode =
    Normal
  | Escape
  | ParenOpen
  | ParenQuestion
  | ClassOpen
  | InClass bool "(char \<times> char) list" pending
  | ClassEscape bool "(char \<times> char) list" pending

record pstate =
  mode :: pmode
  stack :: "(nat option \<times> regex list \<times> (regex \<times> tkind) list) list"
  alts :: "regex list"
  terms :: "(regex \<times> tkind) list"
  ngroups :: nat

fun mk_seq :: "regex list \<Rightarrow> regex" where
  "mk_seq [] = REmpty"
| "mk_seq [r] = r"
| "mk_seq (r # rs) = RSeq r (mk_seq rs)"

fun mk_alt :: "regex list \<Rightarrow> regex" where
  "mk_alt [] = REmpty"
| "mk_alt [r] = r"
| "mk_alt (r # rs) = RAlt r (mk_alt rs)"

definition close_disjunction :: "regex list \<Rightarrow> (regex \<times> tkind) list \<Rightarrow> regex" where
  "close_disjunction as ts = mk_alt (rev (mk_seq (rev (map fst ts)) # as))"

definition is_syntax_char :: "char \<Rightarrow> bool" where
  "is_syntax_char c = (c \<in> set ''^$.*+?()[]{}|'' \<or> c = CHR 0x5C)"

definition is_identity_escape :: "char \<Rightarrow> bool" where
  "is_identity_escape c = (is_syntax_char c \<or> c = CHR ''/'' \<or> c = CHR ''-'')"

definition push_term :: "pstate \<Rightarrow> regex \<Rightarrow> tkind \<Rightarrow> pstate" where
  "push_term st r k = st \<lparr> mode := Normal, terms := (r, k) # terms st \<rparr>"

fun make_lazy :: "regex \<Rightarrow> regex" where
  "make_lazy (RStar g a) = RStar False a"
| "make_lazy (RPlus g a) = RPlus False a"
| "make_lazy (ROpt g a) = ROpt False a"
| "make_lazy r = r"

definition quantify :: "char \<Rightarrow> regex \<Rightarrow> regex" where
  "quantify q a =
     (if q = CHR ''*'' then RStar True a
      else if q = CHR ''+'' then RPlus True a
      else ROpt True a)"

definition step_quantifier :: "pstate \<Rightarrow> char \<Rightarrow> pstate option" where
  "step_quantifier st q =
     (case terms st of
        [] \<Rightarrow> None
      | (r, k) # ts \<Rightarrow>
          if k = Atom then Some (st \<lparr> terms := (quantify q r, Quantified) # ts \<rparr>)
          else if k = Quantified \<and> q = CHR ''?''
            then Some (st \<lparr> terms := (make_lazy r, Closed) # ts \<rparr>)
          else None)"

definition step_normal :: "pstate \<Rightarrow> char \<Rightarrow> pstate option" where
  "step_normal st c =
     (if c = CHR 0x5C then Some (st \<lparr> mode := Escape \<rparr>)
      else if c = CHR ''('' then Some (st \<lparr> mode := ParenOpen \<rparr>)
      else if c = CHR '')'' then
        (case stack st of
           [] \<Rightarrow> None
         | (g, as, ts) # outer \<Rightarrow>
             (let body = close_disjunction (alts st) (terms st);
                  atom = (case g of None \<Rightarrow> body | Some k \<Rightarrow> RGroup k body)
              in Some (st \<lparr> stack := outer, alts := as, terms := (atom, Atom) # ts \<rparr>)))
      else if c = CHR ''|'' then
        Some (st \<lparr> alts := mk_seq (rev (map fst (terms st))) # alts st, terms := [] \<rparr>)
      else if c = CHR ''*'' \<or> c = CHR ''+'' \<or> c = CHR ''?'' then step_quantifier st c
      else if c = CHR ''['' then Some (st \<lparr> mode := ClassOpen \<rparr>)
      else if c = CHR ''^'' then Some (push_term st RBol Closed)
      else if c = CHR ''$'' then Some (push_term st REol Closed)
      else if c = CHR ''.'' then Some (push_term st RAny Atom)
      else if is_syntax_char c then None
      else Some (push_term st (RChar c) Atom))"

text \<open>Inside a class an atom either starts a possible range, ends one, or stands alone;
  only an unescaped \<open>-\<close> between two atoms makes a range.\<close>

definition class_atom ::
  "bool \<Rightarrow> (char \<times> char) list \<Rightarrow> pending \<Rightarrow> char \<Rightarrow> bool \<Rightarrow> pmode option" where
  "class_atom negated items pend c plain_dash =
     (case pend of
        NoAtom \<Rightarrow> Some (InClass negated items (HaveAtom c))
      | HaveAtom a \<Rightarrow>
          if plain_dash then Some (InClass negated items (HaveDash a))
          else Some (InClass negated ((a, a) # items) (HaveAtom c))
      | HaveDash a \<Rightarrow>
          if (of_char a :: nat) \<le> of_char c then Some (InClass negated ((a, c) # items) NoAtom)
          else None)"

definition flush_pending :: "(char \<times> char) list \<Rightarrow> pending \<Rightarrow> (char \<times> char) list" where
  "flush_pending items pend =
     (case pend of
        NoAtom \<Rightarrow> items
      | HaveAtom a \<Rightarrow> (a, a) # items
      | HaveDash a \<Rightarrow> (CHR ''-'', CHR ''-'') # (a, a) # items)"

definition step_class ::
  "pstate \<Rightarrow> bool \<Rightarrow> (char \<times> char) list \<Rightarrow> pending \<Rightarrow> char \<Rightarrow> pstate option" where
  "step_class st negated items pend c =
     (if c = CHR '']'' then
        Some (push_term st (RClass negated (rev (flush_pending items pend))) Atom)
      else if c = CHR 0x5C then Some (st \<lparr> mode := ClassEscape negated items pend \<rparr>)
      else map_option (\<lambda>m. st \<lparr> mode := m \<rparr>) (class_atom negated items pend c (c = CHR ''-'')))"

definition step :: "pstate \<Rightarrow> char \<Rightarrow> pstate option" where
  "step st c =
     (case mode st of
        Normal \<Rightarrow> step_normal st c
      | Escape \<Rightarrow> if is_identity_escape c then Some (push_term st (RChar c) Atom) else None
      | ParenOpen \<Rightarrow>
          if c = CHR ''?'' then Some (st \<lparr> mode := ParenQuestion \<rparr>)
          else step_normal
                 (st \<lparr> mode := Normal,
                       stack := (Some (Suc (ngroups st)), alts st, terms st) # stack st,
                       alts := [], terms := [], ngroups := Suc (ngroups st) \<rparr>) c
      | ParenQuestion \<Rightarrow>
          if c = CHR '':'' then
            Some (st \<lparr> mode := Normal, stack := (None, alts st, terms st) # stack st,
                       alts := [], terms := [] \<rparr>)
          else None
      | ClassOpen \<Rightarrow>
          if c = CHR ''^'' then Some (st \<lparr> mode := InClass True [] NoAtom \<rparr>)
          else step_class st False [] NoAtom c
      | InClass negated items pend \<Rightarrow> step_class st negated items pend c
      | ClassEscape negated items pend \<Rightarrow>
          if is_identity_escape c
          then map_option (\<lambda>m. st \<lparr> mode := m \<rparr>) (class_atom negated items pend c False)
          else None)"

fun run :: "pstate \<Rightarrow> string \<Rightarrow> pstate option" where
  "run st [] = Some st"
| "run st (c # cs) = (case step st c of None \<Rightarrow> None | Some st' \<Rightarrow> run st' cs)"

record compiled =
  program :: regex
  group_count :: nat

text \<open>\<open>None\<close> is the \<open>SyntaxError\<close> of the constructor; a pattern that uses syntax
  beyond the fragment above is answered with \<open>None\<close> as well. The definitions of the
  plugin below take the engine as a parameter, so nothing that is proved for every
  pattern depends on this.\<close>

definition parse_pattern :: "string \<Rightarrow> compiled option" where
  "parse_pattern p =
     (case run \<lparr> mode = Normal, stack = [], alts = [], terms = [], ngroups = 0 \<rparr> p of
        None \<Rightarrow> None
      | Some st \<Rightarrow>
          if mode st = Normal \<and> stack st = []
          then Some \<lparr> program = close_disjunction (alts st) (terms st),
                      group_count = ngroups st \<rparr>
          else None)"

text \<open>The \<open>RegExp\<close> built-in as the plugin uses it: the constructor (\<open>None\<close> when it
  throws) and \<open>exec\<close>.\<close>

record 'r regexp_engine =
  RegExp_new :: "string \<Rightarrow> 'r option"
  RegExp_exec :: "'r \<Rightarrow> string \<Rightarrow> rmatch option"

definition ecmascript :: "compiled regexp_engine" where
  "ecmascript =
     \<lparr> RegExp_new = parse_pattern,
       RegExp_exec = (\<lambda>re s. search (program re) (group_count re) 0 s) \<rparr>"

subsection \<open>String.prototype.replace\<close>

definition digit_value :: "char \<Rightarrow> nat" where
  "digit_value c = of_char c - 48"

definition capture_text :: "string option list \<Rightarrow> nat \<Rightarrow> string" where
  "capture_text caps k = (case caps ! (k - 1) of None \<Rightarrow> [] | Some s \<Rightarrow> s)"

text \<open>The replacement template: \<open>$$\<close>, \<open>$&\<close>, the text before (\<open>$\<close> and a backquote)
  and after (\<open>$\<close> and a quote) the match, and \<open>$n\<close>, \<open>$nn\<close> for a capture that exists;
  a two-digit number beyond the last capture is read as one digit. Every other
  character, and a \<open>$\<close> that starts none of these, stands for itself. There are no
  named groups here.\<close>

fun GetSubstitution ::
  "string \<Rightarrow> string \<Rightarrow> nat \<Rightarrow> string option list \<Rightarrow> string \<Rightarrow> string" where
  "GetSubstitution m str position caps [] = []"
| "GetSubstitution m str position caps [c] = [c]"
| "GetSubstitution m str position caps (c # d # rest) =
     (if c \<noteq> CHR ''$'' then c # GetSubstitution m str position caps (d # rest)
      else if d = CHR ''$'' then CHR ''$'' # GetSubstitution m str position caps rest
      else if d = CHR 0x60 then take position str @ GetSubstitution m str position caps rest
      else if d = CHR ''&'' then m @ GetSubstitution m str position caps rest
      else if d = CHR 0x27 then
        drop (min (position + length m) (length str)) str
          @ GetSubstitution m str position caps rest
      else if is_digit d then
        (case rest of
           [] \<Rightarrow>
             if 1 \<le> digit_value d \<and> digit_value d \<le> length caps
             then capture_text caps (digit_value d)
             else [c, d]
         | e # rest' \<Rightarrow>
             if is_digit e \<and> 10 * digit_value d + digit_value e \<le> length caps then
               (if 1 \<le> 10 * digit_value d + digit_value e
                then capture_text caps (10 * digit_value d + digit_value e)
                       @ GetSubstitution m str position caps rest'
                else c # d # e # GetSubstitution m str position caps rest')
             else if 1 \<le> digit_value d \<and> digit_value d \<le> length caps then
               capture_text caps (digit_value d)
                 @ GetSubstitution m str position caps (e # rest')
             else c # d # GetSubstitution m str position caps (e # rest'))
      else c # GetSubstitution m str position caps (d # rest))"

text \<open>\<open>String.prototype.indexOf\<close>, searching from index \<open>i\<close> of the original string.\<close>

fun indexOf_from :: "string \<Rightarrow> string \<Rightarrow> nat \<Rightarrow> nat option" where
  "indexOf_from [] pat i = (if pat = [] then Some i else None)"
| "indexOf_from (c # cs) pat i =
     (if startsWith (c # cs) pat then Some i else indexOf_from cs pat (Suc i))"

text \<open>\<open>replace\<close> with a string pattern replaces the first occurrence.\<close>

definition replace_string :: "string \<Rightarrow> string \<Rightarrow> string \<Rightarrow> string" where
  "replace_string str pat replacement =
     (case indexOf_from str pat 0 of
        None \<Rightarrow> str
      | Some pos \<Rightarrow>
          take pos str @ GetSubstitution pat str pos [] replacement
            @ drop (pos + length pat) str)"

text \<open>\<open>replace\<close> with a regular expression that has no global flag replaces the first
  match.\<close>

definition replace_regexp ::
  "'r regexp_engine \<Rightarrow> string \<Rightarrow> 'r \<Rightarrow> string \<Rightarrow> string" where
  "replace_regexp eng str re replacement =
     (case RegExp_exec eng re str of
        None \<Rightarrow> str
      | Some r \<Rightarrow>
          take (index r) str
            @ GetSubstitution (matched r) str (index r) (captures r) replacement
            @ drop (index r + length (matched r)) str)"

section \<open>PathReplace configuration\<close>

text \<open>The text of the regular expression literal in the detection test, between its
  slashes: an opening bracket, the fourteen characters (the closing bracket and the
  backslash each written with a backslash), and a closing bracket.\<close>

definition special_chars_literal :: string where
  "special_chars_literal =
     ''[.*+?^${}()|['' @ [CHR 0x5C, CHR '']'', CHR 0x5C, CHR 0x5C] @ '']''"

definition regexp_test :: "compiled option \<Rightarrow> string \<Rightarrow> bool" where
  "regexp_test literal s =
     (case literal of
        None \<Rightarrow> False
      | Some re \<Rightarrow> search (program re) (group_count re) 0 s \<noteq> None)"

text \<open>\<open>pattern.startsWith('^') || /[...]/.test(pattern)\<close>.\<close>

definition is_regex_pattern :: "string \<Rightarrow> bool" where
  "is_regex_pattern pattern =
     (startsWith pattern ''^'' \<or> regexp_test (parse_pattern special_chars_literal) pattern)"

datatype 'r pattern = RegExp 'r | Literal string

text \<open>The two module variables; \<open>None\<close> is \<open>null\<close>.\<close>

record 'r path_replace =
  pathReplacePattern :: "'r pattern option"
  pathReplaceReplacement :: "string option"

text \<open>The start-up block that reads \<open>NUXT_OPENTELEMETRY_PATH_REPLACE\<close>. Its input here is
  what \<open>JSON.parse\<close> made of the variable when that is an array of strings; \<open>None\<close>
  stands for a variable that is unset or empty, for text that is not JSON (the error is
  caught) and for JSON that is not an array. Anything but two elements leaves both
  variables \<open>null\<close>, and so does a pattern the constructor rejects, since the error is
  caught before either assignment.\<close>

definition load_path_replace ::
  "'r regexp_engine \<Rightarrow> string list option \<Rightarrow> 'r path_replace" where
  "load_path_replace eng parsed =
     (case parsed of
        Some [pattern, replacement] \<Rightarrow>
          if is_regex_pattern pattern then
            (case RegExp_new eng pattern of
               None \<Rightarrow> \<lparr> pathReplacePattern = None, pathReplaceReplacement = None \<rparr>
             | Some re \<Rightarrow>
                 \<lparr> pathReplacePattern = Some (RegExp re),
                   pathReplaceReplacement = Some replacement \<rparr>)
          else \<lparr> pathReplacePattern = Some (Literal pattern),
                 pathReplaceReplacement = Some replacement \<rparr>
      | _ \<Rightarrow> \<lparr> pathReplacePattern = None, pathReplaceReplacement = None \<rparr>)"

text \<open>\<open>!pathReplacePattern\<close> and \<open>!pathReplaceReplacement\<close>: \<open>null\<close> and the empty string
  are falsy, a \<open>RegExp\<close> object never is.\<close>

definition pattern_falsy :: "'r pattern option \<Rightarrow> bool" where
  "pattern_falsy p = (p = None \<or> p = Some (Literal []))"

definition string_falsy :: "string option \<Rightarrow> bool" where
  "string_falsy s = (s = None \<or> s = Some [])"

definition normalizePath :: "'r regexp_engine \<Rightarrow> 'r path_replace \<Rightarrow> string \<Rightarrow> string" where
  "normalizePath eng cfg path =
     (if pattern_falsy (pathReplacePattern cfg) \<or> string_falsy (pathReplaceReplacement cfg)
      then path
      else (case (pathReplacePattern cfg, pathReplaceReplacement cfg) of
              (Some (RegExp re), Some replacement) \<Rightarrow> replace_regexp eng path re replacement
            | (Some (Literal s), Some replacement) \<Rightarrow> replace_string path s replacement
            | _ \<Rightarrow> path))"

section \<open>Spans\<close>

text \<open>
  Span objects come from the tracer of the OpenTelemetry SDK. The model keeps of a span
  what the plugin reads and the calls the plugin makes on it: \<open>setAttributes\<close>,
  \<open>setStatus\<close>, \<open>recordException\<close> and \<open>end\<close> are recorded as they arrive, and
  \<open>end_calls\<close> counts the calls of \<open>end\<close>. None of them throws here.
\<close>

datatype span_kind = INTERNAL | SERVER | CLIENT | PRODUCER | CONSUMER

datatype status_code = UNSET | OK | ERROR

record span_status =
  code :: status_code
  message :: "string option"

datatype attr_value = AString string | ANumber nat | AUndefined

record js_error =
  error_name :: string
  error_message :: string

record span_options =
  kind :: span_kind
  attributes :: "(string \<times> attr_value) list"

record span =
  spanContext :: span_context
  span_name :: string
  span_kind :: span_kind
  span_attributes :: "(string \<times> attr_value) list"
  span_status :: span_status
  span_exceptions :: "js_error list"
  end_calls :: nat
  has_isEnded :: bool

text \<open>\<open>tracer.startSpan(name, options, parentContext)\<close>; the parent context carries
  nothing but the remote span context.\<close>

type_synonym tracer = "string \<Rightarrow> span_options \<Rightarrow> span_context \<Rightarrow> span"

definition setAttributes :: "span \<Rightarrow> (string \<times> attr_value) list \<Rightarrow> span" where
  "setAttributes s kvs = s \<lparr> span_attributes := span_attributes s @ kvs \<rparr>"

definition setStatus :: "span \<Rightarrow> span_status \<Rightarrow> span" where
  "setStatus s st = s \<lparr> span_status := st \<rparr>"

definition recordException :: "span \<Rightarrow> js_error \<Rightarrow> span" where
  "recordException s e = s \<lparr> span_exceptions := span_exceptions s @ [e] \<rparr>"

definition end_span :: "span \<Rightarrow> span" where
  "end_span s = s \<lparr> end_calls := Suc (end_calls s) \<rparr>"

definition ended :: "span \<Rightarrow> bool" where
  "ended s = (0 < end_calls s)"

text \<open>\<open>span.isEnded?.()\<close> as a condition: the optional call gives \<open>undefined\<close>, which is
  falsy, on a span object that has no \<open>isEnded\<close> method; a span object that has the
  method answers whether \<open>end\<close> has been called on it.\<close>

definition isEnded :: "span \<Rightarrow> bool" where
  "isEnded s = (has_isEnded s \<and> ended s)"

subsection \<open>The tracer of the SDK\<close>

text \<open>
  The plugin's tracer is the one \<open>trace.getTracer\<close> gives once the SDK has started. The
  library is not part of the repository; of its \<open>startSpan\<close> the model keeps what the
  hooks can observe. The new span is in the trace of the parent context when that
  context is valid, that is when its trace id is 32 hexadecimal digits and its span id
  16, in either case of the letters and neither all zeros; otherwise the span starts a
  newly generated trace. The span id is generated, the flags are the sampler's
  decision, and the span object has no \<open>isEnded\<close> method. \<open>trace_sdk\<close> holds what
  the SDK contributes: the two generated ids and the sampler.
\<close>

record trace_sdk =
  generateTraceId :: string
  generateSpanId :: string
  sampler :: "string \<Rightarrow> span_options \<Rightarrow> span_context \<Rightarrow> js_number"

definition isValidTraceId :: "string \<Rightarrow> bool" where
  "isValidTraceId t =
     (length t = 32 \<and> list_all is_hex t \<and> t \<noteq> replicate 32 CHR ''0'')"

definition isValidSpanId :: "string \<Rightarrow> bool" where
  "isValidSpanId t =
     (length t = 16 \<and> list_all is_hex t \<and> t \<noteq> replicate 16 CHR ''0'')"

definition isSpanContextValid :: "span_context \<Rightarrow> bool" where
  "isSpanContextValid c = (isValidTraceId (traceId c) \<and> isValidSpanId (spanId c))"

definition startSpan :: "trace_sdk \<Rightarrow> tracer" where
  "startSpan sdk name opts parent =
     \<lparr> spanContext =
         \<lparr> traceId = (if isSpanContextValid parent then traceId parent
                       else generateTraceId sdk),
           spanId = generateSpanId sdk,
           traceFlags = sampler sdk name opts parent,
           isRemote = False \<rparr>,
       span_name = name, span_kind = kind opts, span_attributes = attributes opts,
       span_status = \<lparr> code = UNSET, message = None \<rparr>, span_exceptions = [],
       end_calls = 0, has_isEnded = False \<rparr>"

section \<open>The request and its hooks\<close>

text \<open>The H3 event as far as the hooks use it: request headers, method, path and URL, the
  response's status code and headers, and \<open>event.context.span\<close>. \<open>detached\<close> keeps the
  span objects that \<open>event.context\<close> no longer refers to, newest first, so that their
  final state can still be stated.\<close>

record event =
  req_headers :: "string \<rightharpoonup> string"
  ev_method :: string
  ev_path :: string
  req_url :: "string option"
  res_statusCode :: nat
  res_headers :: "string \<rightharpoonup> string"
  context_span :: "span option"
  detached :: "span list"

text \<open>\<open>event.path || event.node.req.url || '/'\<close>.\<close>

definition requestPath :: "event \<Rightarrow> string" where
  "requestPath ev =
     (if ev_path ev \<noteq> [] then ev_path ev
      else (case req_url ev of
              None \<Rightarrow> ''/''
            | Some u \<Rightarrow> if u \<noteq> [] then u else ''/''))"

definition header_attr :: "string option \<Rightarrow> attr_value" where
  "header_attr v = (case v of None \<Rightarrow> AUndefined | Some s \<Rightarrow> AString s)"

text \<open>The \<open>request\<close> hook. \<open>now\<close> is \<open>new Date().toISOString()\<close>. After starting the
  span the hook compares the span's trace id with the one of the header and logs the
  outcome; the span is stored in either case. The bodies of all four hooks sit in a
  \<open>try\<close> whose \<open>catch\<close> only logs; the tracer and the span methods are total here.\<close>

definition request_hook ::
  "'r regexp_engine \<Rightarrow> 'r path_replace \<Rightarrow> tracer \<Rightarrow> string \<Rightarrow> event \<Rightarrow> event" where
  "request_hook eng cfg tracer now ev =
     (case traceparent_parts (req_headers ev ''traceparent'') of
        None \<Rightarrow> ev
      | Some parts \<Rightarrow>
          (case remoteSpanContext parts of
             None \<Rightarrow> ev
           | Some parentContext \<Rightarrow>
               (let normalizedPath = normalizePath eng cfg (requestPath ev);
                    s = tracer (ev_method ev @ '' '' @ normalizedPath)
                          \<lparr> kind = SERVER,
                            attributes =
                              [(''http.request.method'', AString (ev_method ev)),
                               (''url.path'', AString (requestPath ev)),
                               (''http.route'', AString normalizedPath),
                               (''url.scheme'', AString ''http''),
                               (''http.request.header.x-user-agent'',
                                  header_attr (req_headers ev ''user-agent'')),
                               (''http.request.header.x-request-time'', AString now),
                               (''http.request.header.x-client-id'',
                                  header_attr (req_headers ev ''x-client-id''))] \<rparr>
                          parentContext
                in ev \<lparr> context_span := Some s,
                        detached := (case context_span ev of
                                       None \<Rightarrow> detached ev
                                     | Some old \<Rightarrow> old # detached ev) \<rparr>)))"

text \<open>Decimal digits of a number, for the template literal \<open>HTTP ${statusCode}\<close>.\<close>

fun show_nat :: "nat \<Rightarrow> string" where
  "show_nat n =
     (if n < 10 then [char_of (48 + n)]
      else show_nat (n div 10) @ [char_of (48 + n mod 10)])"

declare show_nat.simps [simp del]

text \<open>\<open>event.node.res.statusCode || 200\<close>.\<close>

definition statusCode_or_200 :: "event \<Rightarrow> nat" where
  "statusCode_or_200 ev = (if res_statusCode ev = 0 then 200 else res_statusCode ev)"

text \<open>The \<open>beforeResponse\<close> hook.\<close>

definition before_response :: "event \<Rightarrow> event" where
  "before_response ev =
     (case context_span ev of
        None \<Rightarrow> ev
      | Some s \<Rightarrow>
          if isEnded s then ev
          else
            (let s1 = setAttributes s
                        [(''http.response.status_code'', ANumber (statusCode_or_200 ev)),
                         (''http.response.header.content-type'',
                            header_attr (res_headers ev ''content-type'')),
                         (''http.response.header.content-length'',
                            header_attr (res_headers ev ''content-length''))];
                 statusCode = statusCode_or_200 ev;
                 s2 = (if statusCode \<ge> 400
                       then setStatus s1 \<lparr> code = ERROR,
                                            message = Some (''HTTP '' @ show_nat statusCode) \<rparr>
                       else setStatus s1 \<lparr> code = OK, message = None \<rparr>)
             in ev \<lparr> context_span := Some (end_span s2) \<rparr>))"

text \<open>The \<open>error\<close> hook. Its second argument may come without an event (\<open>None\<close>).\<close>

definition error_hook :: "js_error \<Rightarrow> event option \<Rightarrow> event option" where
  "error_hook err evo =
     (case evo of
        None \<Rightarrow> None
      | Some ev \<Rightarrow>
          (case context_span ev of
             None \<Rightarrow> Some ev
           | Some s \<Rightarrow>
               if isEnded s then Some ev
               else
                 (let s1 = recordException s err;
                      s2 = setStatus s1 \<lparr> code = ERROR, message = Some (error_message err) \<rparr>
                  in Some (ev \<lparr> context_span := Some (end_span s2) \<rparr>))))"

text \<open>The \<open>afterResponse\<close> hook.\<close>

definition after_response :: "event \<Rightarrow> event" where
  "after_response ev =
     (case context_span ev of
        None \<Rightarrow> ev
      | Some s \<Rightarrow>
          (let s' = (if \<not> isEnded s then end_span s else s)
           in ev \<lparr> context_span := None, detached := s' # detached ev \<rparr>))"





subsection \<open>Example inputs\<close>

text \<open>An SDK with fixed generated ids and a sampler that samples everything, a
  \<open>POST /api/hash\<close> request with a given \<open>traceparent\<close> header, that request after the
  request hook has run on the header of the documentation, and an error.\<close>

definition fixed_ids :: trace_sdk where
  "fixed_ids =
     \<lparr> generateTraceId = ''4bf92f3577b34da6a3ce929d0e0e4736'',
       generateSpanId = ''00f067aa0ba902b7'',
       sampler = (\<lambda>name opts parent. Num 1) \<rparr>"

definition hash_request :: "string option \<Rightarrow> event" where
  "hash_request tp =
     \<lparr> req_headers = (\<lambda>k. if k = ''traceparent'' then tp else None),
       ev_method = ''POST'', ev_path = ''/api/hash'', req_url = Some ''/api/hash'',
       res_statusCode = 200,
       res_headers = (\<lambda>k. if k = ''content-type'' then Some ''application/json'' else None),
       context_span = None, detached = [] \<rparr>"

definition no_rule :: "compiled path_replace" where
  "no_rule = load_path_replace ecmascript None"

definition locale_rule :: "compiled path_replace" where
  "locale_rule = load_path_replace ecmascript (Some [''^/(en|de|fr)/'', ''/:locale/''])"

definition example_span :: "nat \<Rightarrow> span" where
  "example_span n =
     (startSpan fixed_ids ''POST /api/hash'' \<lparr> kind = SERVER, attributes = [] \<rparr>
        \<lparr> traceId = ''909345e985cb1d64cab2231a9fd2459d'', spanId = ''fa583390dc4a57f0'',
          traceFlags = Num 1, isRemote = True \<rparr>) \<lparr> end_calls := n \<rparr>"



section \<open>Properties of the header parsing\<close>

lemma split_on_not_Nil: "split_on sep s \<noteq> []"
  by (induction s) (auto split: list.splits)

lemma join_split_on: "join_with sep (split_on sep s) = s"
proof (induction s)
  case Nil
  then show ?case by simp
next
  case (Cons x xs)
  show ?case
  proof (cases "x = sep")
    case True
    with Cons split_on_not_Nil [of sep xs] show ?thesis
      by (cases "split_on sep xs") auto
  next
    case False
    with Cons split_on_not_Nil [of sep xs] show ?thesis
      by (cases "split_on sep xs"; cases "tl (split_on sep xs)") auto
  qed
qed

lemma split_on_no_sep: "sep \<notin> set a \<Longrightarrow> split_on sep a = [a]"
  by (induction a) auto

lemma split_on_append: "sep \<notin> set a \<Longrightarrow> split_on sep (a @ sep # r) = a # split_on sep r"
  by (induction a) auto

lemma hex_not_dash: "is_hex c \<Longrightarrow> c \<noteq> CHR ''-''"
  by (auto simp: is_hex_def is_lower_hex_def is_digit_def)

lemma lower_hex_not_dash: "is_lower_hex c \<Longrightarrow> c \<noteq> CHR ''-''"
  by (auto simp: is_lower_hex_def is_digit_def)

lemma list_all_hex_no_dash: "list_all is_hex s \<Longrightarrow> CHR ''-'' \<notin> set s"
  by (induction s) (auto dest: hex_not_dash)

lemma list_all_lower_hex_no_dash: "list_all is_lower_hex s \<Longrightarrow> CHR ''-'' \<notin> set s"
  by (induction s) (auto dest: lower_hex_not_dash)

lemma cut_at: "n < length h \<Longrightarrow> h = take n h @ h ! n # drop (Suc n) h"
  by (simp add: id_take_nth_drop)

lemma w3c_shape:
  assumes "w3c_traceparent h"
  shows "h = take 2 h @ CHR ''-'' # take 32 (drop 3 h) @ CHR ''-'' # take 16 (drop 36 h)
             @ CHR ''-'' # drop 53 h"
proof -
  from assms have len: "length h = 55" and d1: "h ! 2 = CHR ''-''" and d2: "h ! 35 = CHR ''-''"
    and d3: "h ! 52 = CHR ''-''"
    by (simp_all add: w3c_traceparent_def)
  have a: "h = take 2 h @ CHR ''-'' # drop 3 h"
    using cut_at [of 2 h] len d1 by (simp add: numeral_3_eq_3)
  have b: "drop 3 h = take 32 (drop 3 h) @ CHR ''-'' # drop 36 h"
    using cut_at [of 32 "drop 3 h"] len d2 by (simp add: add.commute)
  have c: "drop 36 h = take 16 (drop 36 h) @ CHR ''-'' # drop 53 h"
    using cut_at [of 16 "drop 36 h"] len d3 by (simp add: add.commute)
  from a b c show ?thesis by metis
qed

lemma w3c_parts:
  assumes "w3c_traceparent h"
  shows "split_on CHR ''-'' h = [take 2 h, take 32 (drop 3 h), take 16 (drop 36 h), drop 53 h]"
proof -
  from assms have n1: "CHR ''-'' \<notin> set (take 2 h)"
    and n2: "CHR ''-'' \<notin> set (take 32 (drop 3 h))"
    and n3: "CHR ''-'' \<notin> set (take 16 (drop 36 h))"
    and n4: "CHR ''-'' \<notin> set (drop 53 h)"
    by (simp_all add: w3c_traceparent_def list_all_hex_no_dash list_all_lower_hex_no_dash)
  have "split_on CHR ''-'' (take 2 h @ CHR ''-'' # take 32 (drop 3 h) @ CHR ''-'' #
          take 16 (drop 36 h) @ CHR ''-'' # drop 53 h)
        = [take 2 h, take 32 (drop 3 h), take 16 (drop 36 h), drop 53 h]"
    using n1 n2 n3 n4 by (simp add: split_on_append split_on_no_sep)
  with w3c_shape [OF assms] show ?thesis by simp
qed

lemma example_header_parts:
  "traceparent_parts (Some ''00-909345e985cb1d64cab2231a9fd2459d-fa583390dc4a57f0-01'')
     = Some [''00'', ''909345e985cb1d64cab2231a9fd2459d'', ''fa583390dc4a57f0'', ''01'']"
  by code_simp

lemma example_header_w3c:
  "w3c_traceparent ''00-909345e985cb1d64cab2231a9fd2459d-fa583390dc4a57f0-01''"
  by code_simp

lemma example_traceId_valid: "isValidTraceId ''909345e985cb1d64cab2231a9fd2459d''"
  by code_simp

lemma example_spanId_valid: "isValidSpanId ''fa583390dc4a57f0''"
  by code_simp

lemma hash_request_facts:
  "context_span (hash_request tp) = None" "detached (hash_request tp) = []"
  "req_headers (hash_request tp) ''traceparent'' = tp"
  "res_statusCode (hash_request tp) = 200"
  by (simp_all add: hash_request_def)

text \<open>C1 (as amended): when the request hook accepts the traceparent header, the span it
  stores has the trace id of the header's second field if that field is 32 hexadecimal
  digits and the third field 16, neither all zeros; for any other accepted header the
  SDK starts a new trace and the span has the generated trace id. For the header
  \<open>00-909345e985cb1d64cab2231a9fd2459d-fa583390dc4a57f0-01\<close> the span reports
  \<open>909345e985cb1d64cab2231a9fd2459d\<close>.\<close>

theorem span_traceId_of_valid_parent:
  "(traceparent_parts (req_headers ev ''traceparent'') = Some [version, tid, sid, flags] \<longrightarrow>
      (\<exists>s. context_span (request_hook eng cfg (startSpan sdk) now ev) = Some s
           \<and> traceId (spanContext s)
               = (if isValidTraceId tid \<and> isValidSpanId sid then tid
                  else generateTraceId sdk)))
   \<and> (req_headers ev ''traceparent''
         = Some ''00-909345e985cb1d64cab2231a9fd2459d-fa583390dc4a57f0-01'' \<longrightarrow>
       (\<exists>s. context_span (request_hook eng cfg (startSpan sdk) now ev) = Some s
            \<and> traceId (spanContext s) = ''909345e985cb1d64cab2231a9fd2459d''))"
proof -
  have gen: "\<exists>s. context_span (request_hook eng cfg (startSpan sdk) now ev) = Some s
           \<and> traceId (spanContext s)
               = (if isValidTraceId t \<and> isValidSpanId p then t else generateTraceId sdk)"
    if "traceparent_parts (req_headers ev ''traceparent'') = Some [v, t, p, f]"
    for v t p f
    using that by (simp add: request_hook_def Let_def startSpan_def isSpanContextValid_def)
  have "\<exists>s. context_span (request_hook eng cfg (startSpan sdk) now ev) = Some s
            \<and> traceId (spanContext s) = ''909345e985cb1d64cab2231a9fd2459d''"
    if "req_headers ev ''traceparent''
         = Some ''00-909345e985cb1d64cab2231a9fd2459d-fa583390dc4a57f0-01''"
    using gen [of "''00''" "''909345e985cb1d64cab2231a9fd2459d''" "''fa583390dc4a57f0''"
        "''01''"] that example_header_parts example_traceId_valid example_spanId_valid
    by simp
  with gen show ?thesis by blast
qed

theorem span_traceId_of_valid_parent_witness:
  "req_headers (hash_request (Some ''00-909345e985cb1d64cab2231a9fd2459d-fa583390dc4a57f0-01''))
        ''traceparent''
       = Some ''00-909345e985cb1d64cab2231a9fd2459d-fa583390dc4a57f0-01''
   \<and> isValidTraceId ''909345e985cb1d64cab2231a9fd2459d''
   \<and> isValidSpanId ''fa583390dc4a57f0''
   \<and> (\<exists>s. context_span
              (request_hook ecmascript no_rule (startSpan fixed_ids) ''2026-01-01T00:00:00.000Z''
                 (hash_request (Some ''00-909345e985cb1d64cab2231a9fd2459d-fa583390dc4a57f0-01'')))
            = Some s
          \<and> traceId (spanContext s) = ''909345e985cb1d64cab2231a9fd2459d'')"
proof -
  have header:
    "req_headers (hash_request (Some ''00-909345e985cb1d64cab2231a9fd2459d-fa583390dc4a57f0-01''))
        ''traceparent''
       = Some ''00-909345e985cb1d64cab2231a9fd2459d-fa583390dc4a57f0-01''"
    by (simp add: hash_request_facts)
  from span_traceId_of_valid_parent [of
      "hash_request (Some ''00-909345e985cb1d64cab2231a9fd2459d-fa583390dc4a57f0-01'')"
      _ _ _ _ ecmascript no_rule fixed_ids "''2026-01-01T00:00:00.000Z''"]
    header example_traceId_valid example_spanId_valid
  show ?thesis by blast
qed

text \<open>C1 as stated fails: the headers \<open>00-ABC-xyz-zz\<close> and
  \<open>00-00000000000000000000000000000000-fa583390dc4a57f0-01\<close> are accepted, the second
  even has the W3C shape, and the span that is stored has the generated trace id, not
  the one of the header.\<close>

theorem invalid_parent_gets_new_trace:
  "traceparent_parts (Some ''00-ABC-xyz-zz'') = Some [''00'', ''ABC'', ''xyz'', ''zz'']
   \<and> map_option (traceId \<circ> spanContext)
        (context_span
           (request_hook ecmascript no_rule (startSpan fixed_ids) ''2026-01-01T00:00:00.000Z''
              (hash_request (Some ''00-ABC-xyz-zz''))))
       = Some ''4bf92f3577b34da6a3ce929d0e0e4736''
   \<and> ''4bf92f3577b34da6a3ce929d0e0e4736'' \<noteq> ''ABC''
   \<and> w3c_traceparent ''00-00000000000000000000000000000000-fa583390dc4a57f0-01''
   \<and> traceparent_parts (Some ''00-00000000000000000000000000000000-fa583390dc4a57f0-01'')
       = Some [''00'', ''00000000000000000000000000000000'', ''fa583390dc4a57f0'', ''01'']
   \<and> map_option (traceId \<circ> spanContext)
        (context_span
           (request_hook ecmascript no_rule (startSpan fixed_ids) ''2026-01-01T00:00:00.000Z''
              (hash_request
                 (Some ''00-00000000000000000000000000000000-fa583390dc4a57f0-01''))))
       = Some ''4bf92f3577b34da6a3ce929d0e0e4736''
   \<and> ''4bf92f3577b34da6a3ce929d0e0e4736'' \<noteq> ''00000000000000000000000000000000''"
proof (intro conjI)
  show a: "traceparent_parts (Some ''00-ABC-xyz-zz'') = Some [''00'', ''ABC'', ''xyz'', ''zz'']"
    by (simp add: traceparent_parts_def)
  have "\<not> isValidTraceId ''ABC''"
    by (simp add: isValidTraceId_def)
  with a show "map_option (traceId \<circ> spanContext)
        (context_span
           (request_hook ecmascript no_rule (startSpan fixed_ids) ''2026-01-01T00:00:00.000Z''
              (hash_request (Some ''00-ABC-xyz-zz''))))
       = Some ''4bf92f3577b34da6a3ce929d0e0e4736''"
    by (simp add: request_hook_def hash_request_facts Let_def startSpan_def
        isSpanContextValid_def fixed_ids_def)
  show "''4bf92f3577b34da6a3ce929d0e0e4736'' \<noteq> ''ABC''" by simp
  show "w3c_traceparent ''00-00000000000000000000000000000000-fa583390dc4a57f0-01''"
    by code_simp
  show b: "traceparent_parts (Some ''00-00000000000000000000000000000000-fa583390dc4a57f0-01'')
       = Some [''00'', ''00000000000000000000000000000000'', ''fa583390dc4a57f0'', ''01'']"
    by code_simp
  have "\<not> isValidTraceId ''00000000000000000000000000000000''"
    by code_simp
  with b show "map_option (traceId \<circ> spanContext)
        (context_span
           (request_hook ecmascript no_rule (startSpan fixed_ids) ''2026-01-01T00:00:00.000Z''
              (hash_request
                 (Some ''00-00000000000000000000000000000000-fa583390dc4a57f0-01''))))
       = Some ''4bf92f3577b34da6a3ce929d0e0e4736''"
    by (simp add: request_hook_def hash_request_facts Let_def startSpan_def
        isSpanContextValid_def fixed_ids_def)
  show "''4bf92f3577b34da6a3ce929d0e0e4736'' \<noteq> ''00000000000000000000000000000000''"
    by simp
qed

text \<open>C2 (as amended): the request hook returns early, storing no span, exactly when
  the header value does not split on \<open>-\<close> into four parts. When it does, the four parts
  are used as they are, with no check of their length or characters: the second is the
  trace id and the third the span id of the parent context, its flags are the fourth
  part passed through \<open>parseInt(_, 16)\<close>, and the hook stores the span the tracer starts
  under that context.\<close>

theorem traceparent_fields_unchecked:
  "(traceparent_parts (Some h) = None \<longleftrightarrow> length (split_on CHR ''-'' h) \<noteq> 4)
   \<and> (req_headers ev ''traceparent'' = Some h \<and> length (split_on CHR ''-'' h) \<noteq> 4 \<longrightarrow>
        request_hook eng cfg tracer now ev = ev)
   \<and> (split_on CHR ''-'' h = [version, tid, sid, flags] \<longrightarrow>
        traceparent_parts (Some h) = Some [version, tid, sid, flags]
        \<and> remoteSpanContext [version, tid, sid, flags]
            = Some \<lparr> traceId = tid, spanId = sid, traceFlags = parseInt16 flags,
                     isRemote = True \<rparr>
        \<and> (req_headers ev ''traceparent'' = Some h \<longrightarrow>
             (\<exists>opts. context_span (request_hook eng cfg tracer now ev)
                = Some (tracer (ev_method ev @ '' '' @ normalizePath eng cfg (requestPath ev)) opts
                          \<lparr> traceId = tid, spanId = sid, traceFlags = parseInt16 flags,
                            isRemote = True \<rparr>))))"
proof (intro conjI impI)
  show none: "traceparent_parts (Some h) = None \<longleftrightarrow> length (split_on CHR ''-'' h) \<noteq> 4"
    by (cases h) (auto simp: traceparent_parts_def Let_def)
  show "request_hook eng cfg tracer now ev = ev"
    if "req_headers ev ''traceparent'' = Some h \<and> length (split_on CHR ''-'' h) \<noteq> 4"
    using that none by (simp add: request_hook_def)
next
  assume parts: "split_on CHR ''-'' h = [version, tid, sid, flags]"
  then have "h \<noteq> []" by auto
  with parts show accepted: "traceparent_parts (Some h) = Some [version, tid, sid, flags]"
    by (simp add: traceparent_parts_def)
  show "remoteSpanContext [version, tid, sid, flags]
            = Some \<lparr> traceId = tid, spanId = sid, traceFlags = parseInt16 flags,
                     isRemote = True \<rparr>"
    by simp
  assume "req_headers ev ''traceparent'' = Some h"
  with accepted
  show "\<exists>opts. context_span (request_hook eng cfg tracer now ev)
                = Some (tracer (ev_method ev @ '' '' @ normalizePath eng cfg (requestPath ev)) opts
                          \<lparr> traceId = tid, spanId = sid, traceFlags = parseInt16 flags,
                            isRemote = True \<rparr>)"
    by (simp add: request_hook_def Let_def) blast
qed

lemma malformed_header_split:
  "split_on CHR ''-'' ''00-ABC-xyz-zz'' = [''00'', ''ABC'', ''xyz'', ''zz'']"
  by simp

theorem traceparent_fields_unchecked_witness:
  "split_on CHR ''-'' ''00-ABC-xyz-zz'' = [''00'', ''ABC'', ''xyz'', ''zz'']
   \<and> req_headers (hash_request (Some ''00-ABC-xyz-zz'')) ''traceparent'' = Some ''00-ABC-xyz-zz''
   \<and> traceparent_parts (Some ''00-ABC-xyz-zz'') = Some [''00'', ''ABC'', ''xyz'', ''zz'']
   \<and> (\<exists>opts. context_span
          (request_hook ecmascript no_rule (startSpan fixed_ids) ''2026-01-01T00:00:00.000Z''
             (hash_request (Some ''00-ABC-xyz-zz'')))
        = Some (startSpan fixed_ids
                  (ev_method (hash_request (Some ''00-ABC-xyz-zz'')) @ '' ''
                     @ normalizePath ecmascript no_rule
                         (requestPath (hash_request (Some ''00-ABC-xyz-zz''))))
                  opts
                  \<lparr> traceId = ''ABC'', spanId = ''xyz'', traceFlags = parseInt16 ''zz'',
                    isRemote = True \<rparr>))
   \<and> length (split_on CHR ''-'' ''00-ABC-xyz'') = 3
   \<and> request_hook ecmascript no_rule (startSpan fixed_ids) ''2026-01-01T00:00:00.000Z''
        (hash_request (Some ''00-ABC-xyz''))
       = hash_request (Some ''00-ABC-xyz'')"
proof -
  have three: "length (split_on CHR ''-'' ''00-ABC-xyz'') = 3" by simp
  from traceparent_fields_unchecked [of "''00-ABC-xyz-zz''"
      "hash_request (Some ''00-ABC-xyz-zz'')" ecmascript no_rule "startSpan fixed_ids"
      "''2026-01-01T00:00:00.000Z''" "''00''" "''ABC''" "''xyz''" "''zz''"]
    malformed_header_split
  have four: "traceparent_parts (Some ''00-ABC-xyz-zz'') = Some [''00'', ''ABC'', ''xyz'', ''zz'']"
    "\<exists>opts. context_span
          (request_hook ecmascript no_rule (startSpan fixed_ids) ''2026-01-01T00:00:00.000Z''
             (hash_request (Some ''00-ABC-xyz-zz'')))
        = Some (startSpan fixed_ids
                  (ev_method (hash_request (Some ''00-ABC-xyz-zz'')) @ '' ''
                     @ normalizePath ecmascript no_rule
                         (requestPath (hash_request (Some ''00-ABC-xyz-zz''))))
                  opts
                  \<lparr> traceId = ''ABC'', spanId = ''xyz'', traceFlags = parseInt16 ''zz'',
                    isRemote = True \<rparr>)"
    by (simp_all add: hash_request_facts)
  from traceparent_fields_unchecked [of "''00-ABC-xyz''"
      "hash_request (Some ''00-ABC-xyz'')" ecmascript no_rule "startSpan fixed_ids"
      "''2026-01-01T00:00:00.000Z''"] three
  have early: "request_hook ecmascript no_rule (startSpan fixed_ids) ''2026-01-01T00:00:00.000Z''
        (hash_request (Some ''00-ABC-xyz''))
       = hash_request (Some ''00-ABC-xyz'')"
    by (simp add: hash_request_facts)
  from four early three malformed_header_split show ?thesis
    by (simp add: hash_request_facts)
qed

text \<open>C2 as stated fails: \<open>00-ABC-xyz-zz\<close> splits into four parts, none of the last three
  has the length or the characters asked for, and the header is accepted all the same,
  with trace id \<open>ABC\<close>, span id \<open>xyz\<close> and flags \<open>NaN\<close>; a span is created.\<close>

theorem malformed_traceparent_accepted:
  "length (split_on CHR ''-'' ''00-ABC-xyz-zz'') = 4
   \<and> \<not> (length ''ABC'' = 32 \<and> list_all is_lower_hex ''ABC'')
   \<and> \<not> (length ''xyz'' = 16 \<and> list_all is_lower_hex ''xyz'')
   \<and> \<not> (length ''zz'' = 2 \<and> list_all is_hex ''zz'')
   \<and> traceparent_parts (Some ''00-ABC-xyz-zz'') = Some [''00'', ''ABC'', ''xyz'', ''zz'']
   \<and> remoteSpanContext [''00'', ''ABC'', ''xyz'', ''zz'']
       = Some \<lparr> traceId = ''ABC'', spanId = ''xyz'', traceFlags = NaN, isRemote = True \<rparr>
   \<and> context_span
        (request_hook ecmascript no_rule (startSpan fixed_ids) ''2026-01-01T00:00:00.000Z''
           (hash_request (Some ''00-ABC-xyz-zz''))) \<noteq> None"
proof (intro conjI)
  show "length (split_on CHR ''-'' ''00-ABC-xyz-zz'') = 4" by simp
  show "\<not> (length ''ABC'' = 32 \<and> list_all is_lower_hex ''ABC'')" by simp
  show "\<not> (length ''xyz'' = 16 \<and> list_all is_lower_hex ''xyz'')" by simp
  show "\<not> (length ''zz'' = 2 \<and> list_all is_hex ''zz'')"
    by (simp add: is_hex_def is_lower_hex_def is_digit_def)
  show parts: "traceparent_parts (Some ''00-ABC-xyz-zz'') = Some [''00'', ''ABC'', ''xyz'', ''zz'']"
    by (simp add: traceparent_parts_def)
  show "remoteSpanContext [''00'', ''ABC'', ''xyz'', ''zz'']
       = Some \<lparr> traceId = ''ABC'', spanId = ''xyz'', traceFlags = NaN, isRemote = True \<rparr>"
    by (simp add: parseInt16_def is_white_space_def startsWith_def is_hex_def is_lower_hex_def
        is_digit_def)
  have "req_headers (hash_request (Some ''00-ABC-xyz-zz'')) ''traceparent''
      = Some ''00-ABC-xyz-zz''"
    by (simp add: hash_request_def)
  with parts show "context_span
        (request_hook ecmascript no_rule (startSpan fixed_ids) ''2026-01-01T00:00:00.000Z''
           (hash_request (Some ''00-ABC-xyz-zz''))) \<noteq> None"
    by (simp add: request_hook_def Let_def)
qed

text \<open>C7: for every header of the W3C shape the request hook obtains four fields, and
  joining them with \<open>-\<close> in the order version, trace id, parent span id, flags gives the
  header back; the same holds for every header the hook accepts.\<close>

theorem traceparent_roundtrip:
  "(w3c_traceparent h \<longrightarrow>
      (\<exists>version tid sid flags.
          traceparent_parts (Some h) = Some [version, tid, sid, flags]
          \<and> length tid = 32 \<and> length sid = 16
          \<and> version @ ''-'' @ tid @ ''-'' @ sid @ ''-'' @ flags = h))
   \<and> (\<forall>parts. traceparent_parts (Some h) = Some parts \<longrightarrow> join_with CHR ''-'' parts = h)"
proof (intro conjI impI allI)
  assume v: "w3c_traceparent h"
  then have len: "length h = 55" by (simp add: w3c_traceparent_def)
  then have ne: "h \<noteq> []" by auto
  from w3c_parts [OF v] ne
  have "traceparent_parts (Some h)
          = Some [take 2 h, take 32 (drop 3 h), take 16 (drop 36 h), drop 53 h]"
    by (simp add: traceparent_parts_def)
  moreover have "take 2 h @ ''-'' @ take 32 (drop 3 h) @ ''-'' @ take 16 (drop 36 h)
                   @ ''-'' @ drop 53 h = h"
    using w3c_shape [OF v] by simp
  moreover have "length (take 32 (drop 3 h)) = 32" "length (take 16 (drop 36 h)) = 16"
    using len by simp_all
  ultimately show "\<exists>version tid sid flags.
          traceparent_parts (Some h) = Some [version, tid, sid, flags]
          \<and> length tid = 32 \<and> length sid = 16
          \<and> version @ ''-'' @ tid @ ''-'' @ sid @ ''-'' @ flags = h"
    by blast
next
  fix parts
  assume "traceparent_parts (Some h) = Some parts"
  then have "parts = split_on CHR ''-'' h"
    by (auto simp: traceparent_parts_def Let_def split: if_splits)
  then show "join_with CHR ''-'' parts = h"
    by (simp add: join_split_on)
qed

theorem traceparent_roundtrip_witness:
  "w3c_traceparent ''00-909345e985cb1d64cab2231a9fd2459d-fa583390dc4a57f0-01''
   \<and> traceparent_parts (Some ''00-909345e985cb1d64cab2231a9fd2459d-fa583390dc4a57f0-01'')
       = Some [''00'', ''909345e985cb1d64cab2231a9fd2459d'', ''fa583390dc4a57f0'', ''01'']
   \<and> join_with CHR ''-'' [''00'', ''909345e985cb1d64cab2231a9fd2459d'', ''fa583390dc4a57f0'', ''01'']
       = ''00-909345e985cb1d64cab2231a9fd2459d-fa583390dc4a57f0-01''
   \<and> (\<exists>version tid sid flags.
          traceparent_parts (Some ''00-909345e985cb1d64cab2231a9fd2459d-fa583390dc4a57f0-01'')
            = Some [version, tid, sid, flags]
          \<and> length tid = 32 \<and> length sid = 16
          \<and> version @ ''-'' @ tid @ ''-'' @ sid @ ''-'' @ flags
              = ''00-909345e985cb1d64cab2231a9fd2459d-fa583390dc4a57f0-01'')"
  using traceparent_roundtrip [of "''00-909345e985cb1d64cab2231a9fd2459d-fa583390dc4a57f0-01''"]
    example_header_w3c example_header_parts
  by blast

section \<open>Properties of the span lifecycle\<close>

lemma example_span_facts:
  "\<not> has_isEnded (example_span n)" "end_calls (example_span n) = n"
  "ended (example_span n) = (0 < n)"
  by (simp_all add: example_span_def startSpan_def ended_def)


text \<open>What the guards do. A span object that has the \<open>isEnded\<close> method and has ended is
  skipped by before-response and on-error. A span object without the method, as the
  SDK's, is never skipped: each of the three hooks calls \<open>end\<close> on it again.\<close>

lemma guard_fires_with_isEnded:
  assumes "context_span ev = Some s" "has_isEnded s" "ended s"
  shows "before_response ev = ev" "error_hook err (Some ev) = Some ev"
  using assms by (simp_all add: before_response_def error_hook_def isEnded_def)

lemma guard_skipped_without_isEnded:
  assumes "context_span ev = Some s" "\<not> has_isEnded s"
  shows "\<exists>s'. context_span (before_response ev) = Some s' \<and> end_calls s' = Suc (end_calls s)"
    and "\<exists>ev' s'. error_hook err (Some ev) = Some ev' \<and> context_span ev' = Some s'
            \<and> end_calls s' = Suc (end_calls s)"
    and "\<exists>s'. detached (after_response ev) = s' # detached ev
            \<and> end_calls s' = Suc (end_calls s)"
  using assms
  by (simp_all add: before_response_def error_hook_def after_response_def isEnded_def
      end_span_def setStatus_def setAttributes_def recordException_def Let_def)


text \<open>C4: when the traceparent header is missing, or does not split on \<open>-\<close> into four
  parts, the request hook returns early without storing a span, and on an event without
  a span the before-response, on-error and after-response callbacks change nothing.\<close>

theorem no_span_without_traceparent:
  assumes "context_span ev = None"
    and "req_headers ev ''traceparent'' = None
         \<or> (\<exists>tp. req_headers ev ''traceparent'' = Some tp
                 \<and> length (split_on CHR ''-'' tp) \<noteq> 4)"
  shows "traceparent_parts (req_headers ev ''traceparent'') = None
         \<and> request_hook eng cfg tracer now ev = ev
         \<and> context_span (request_hook eng cfg tracer now ev) = None
         \<and> before_response ev = ev
         \<and> error_hook err (Some ev) = Some ev
         \<and> after_response ev = ev"
proof -
  from assms(2) have none: "traceparent_parts (req_headers ev ''traceparent'') = None"
    by (auto simp: traceparent_parts_def)
  then have "request_hook eng cfg tracer now ev = ev"
    by (simp add: request_hook_def)
  with none assms(1) show ?thesis
    by (simp add: before_response_def error_hook_def after_response_def)
qed

theorem no_span_without_traceparent_witness:
  "request_hook ecmascript no_rule (startSpan fixed_ids) ''2026-01-01T00:00:00.000Z'' (hash_request None)
     = hash_request None
   \<and> after_response (hash_request None) = hash_request None
   \<and> length (split_on CHR ''-'' ''00-909345e985cb1d64cab2231a9fd2459d'') = 2
   \<and> request_hook ecmascript no_rule (startSpan fixed_ids) ''2026-01-01T00:00:00.000Z''
        (hash_request (Some ''00-909345e985cb1d64cab2231a9fd2459d''))
       = hash_request (Some ''00-909345e985cb1d64cab2231a9fd2459d'')
   \<and> before_response (hash_request (Some ''00-909345e985cb1d64cab2231a9fd2459d''))
       = hash_request (Some ''00-909345e985cb1d64cab2231a9fd2459d'')"
proof -
  have two: "length (split_on CHR ''-'' ''00-909345e985cb1d64cab2231a9fd2459d'') = 2"
    by simp
  have a: "req_headers (hash_request None) ''traceparent'' = None
         \<or> (\<exists>tp. req_headers (hash_request None) ''traceparent'' = Some tp
                 \<and> length (split_on CHR ''-'' tp) \<noteq> 4)"
    by (simp add: hash_request_facts)
  have b: "req_headers (hash_request (Some ''00-909345e985cb1d64cab2231a9fd2459d''))
             ''traceparent'' = None
         \<or> (\<exists>tp. req_headers (hash_request (Some ''00-909345e985cb1d64cab2231a9fd2459d''))
                   ''traceparent'' = Some tp
                 \<and> length (split_on CHR ''-'' tp) \<noteq> 4)"
    using two by (simp add: hash_request_facts)
  from no_span_without_traceparent [OF hash_request_facts(1) a, of ecmascript no_rule
      "startSpan fixed_ids" "''2026-01-01T00:00:00.000Z''"]
    no_span_without_traceparent [OF hash_request_facts(1) b, of ecmascript no_rule
      "startSpan fixed_ids" "''2026-01-01T00:00:00.000Z''"] two
  show ?thesis by blast
qed

text \<open>What before-response does without a span and on a span that has not ended.\<close>

lemma before_response_on_active_span:
  "(context_span ev = None \<longrightarrow> before_response ev = ev)
   \<and> (context_span ev = Some s \<and> \<not> ended s \<longrightarrow>
        (\<exists>s'. before_response ev = ev \<lparr> context_span := Some s' \<rparr>
           \<and> s' = end_span (setStatus (setAttributes s
                     [(''http.response.status_code'', ANumber (statusCode_or_200 ev)),
                      (''http.response.header.content-type'',
                         header_attr (res_headers ev ''content-type'')),
                      (''http.response.header.content-length'',
                         header_attr (res_headers ev ''content-length''))])
                   (if 400 \<le> statusCode_or_200 ev
                    then \<lparr> code = ERROR,
                           message = Some (''HTTP '' @ show_nat (statusCode_or_200 ev)) \<rparr>
                    else \<lparr> code = OK, message = None \<rparr>))
           \<and> (code (span_status s') = ERROR \<longleftrightarrow> 400 \<le> res_statusCode ev)
           \<and> (code (span_status s') = OK \<longleftrightarrow> res_statusCode ev < 400)
           \<and> end_calls s' = 1 \<and> ended s'))"
  by (auto simp: before_response_def isEnded_def ended_def end_span_def setStatus_def
      setAttributes_def statusCode_or_200_def Let_def)



text \<open>C6: after-response always leaves \<open>event.context.span\<close> empty. A span that was
  still held there is ended by then: an active one receives its one \<open>end\<close> from this
  hook, one that reports itself ended is left as it was.\<close>

theorem after_response_clears:
  "context_span (after_response ev) = None
   \<and> (context_span ev = None \<longrightarrow> after_response ev = ev)
   \<and> (\<forall>s. context_span ev = Some s \<longrightarrow>
         (\<exists>s'. detached (after_response ev) = s' # detached ev \<and> ended s'
            \<and> (\<not> ended s \<longrightarrow> s' = end_span s \<and> end_calls s' = 1)
            \<and> (isEnded s \<longrightarrow> s' = s)))"
  by (auto simp: after_response_def isEnded_def ended_def end_span_def Let_def
      split: option.splits)

theorem after_response_clears_witness:
  "context_span (after_response (hash_request None \<lparr> context_span := Some (example_span 0) \<rparr>))
     = None
   \<and> detached (after_response (hash_request None \<lparr> context_span := Some (example_span 0) \<rparr>))
       = [end_span (example_span 0)]
   \<and> ended (end_span (example_span 0))
   \<and> after_response (hash_request None) = hash_request None"
proof -
  let ?live = "hash_request None \<lparr> context_span := Some (example_span 0) \<rparr>"
  have live: "context_span ?live = Some (example_span 0)" "\<not> ended (example_span 0)"
    "detached ?live = []"
    by (simp_all add: example_span_facts hash_request_facts)
  from after_response_clears [of ?live] live
  have "context_span (after_response ?live) = None"
    "detached (after_response ?live) = [end_span (example_span 0)]"
    "ended (end_span (example_span 0))"
    by auto
  moreover from after_response_clears [of "hash_request None"]
  have "after_response (hash_request None) = hash_request None"
    by (simp add: hash_request_facts)
  ultimately show ?thesis by blast
qed

section \<open>Properties of the path normalisation\<close>

lemma parse_special_chars:
  "parse_pattern special_chars_literal
     = Some \<lparr> program = RClass False (map (\<lambda>c. (c, c)) (''.*+?^${}()|[]'' @ [CHR 0x5C])),
              group_count = 0 \<rparr>"
  by code_simp

lemma search_class:
  "(search (RClass False items) n i s \<noteq> None) = (\<exists>c\<in>set s. in_class items c)"
  by (induction s arbitrary: i) auto

lemma in_class_singletons: "in_class (map (\<lambda>c. (c, c)) cs) x = (x \<in> set cs)"
  by (induction cs) (auto simp: in_class_def)

lemma is_regex_pattern_iff:
  "is_regex_pattern pattern
     = (startsWith pattern ''^''
        \<or> (\<exists>c\<in>set pattern. c \<in> set (''.*+?^${}()|[]'' @ [CHR 0x5C])))"
  unfolding is_regex_pattern_def parse_special_chars regexp_test_def
  by (simp only: option.case compiled.simps search_class in_class_singletons)

lemma startsWith_split: "startsWith s p \<Longrightarrow> s = p @ drop (length p) s"
  by (metis append_take_drop_id startsWith_def)

lemma indexOf_from_Some:
  "indexOf_from str pat i = Some k \<Longrightarrow> \<exists>pre post. str = pre @ pat @ post"
proof (induction str arbitrary: i)
  case Nil
  then show ?case by (auto split: if_splits)
next
  case (Cons c cs)
  show ?case
  proof (cases "startsWith (c # cs) pat")
    case True
    from startsWith_split [OF this] have "c # cs = [] @ pat @ drop (length pat) (c # cs)" by simp
    then show ?thesis by blast
  next
    case False
    with Cons.prems have "indexOf_from cs pat (Suc i) = Some k" by simp
    from Cons.IH [OF this] obtain pre post where "cs = pre @ pat @ post" by blast
    then have "c # cs = (c # pre) @ pat @ post" by simp
    then show ?thesis by blast
  qed
qed

lemma replace_string_no_match:
  "\<not> (\<exists>pre post. str = pre @ pat @ post) \<Longrightarrow> replace_string str pat replacement = str"
  using indexOf_from_Some [of str pat 0]
  by (cases "indexOf_from str pat 0") (auto simp: replace_string_def)

lemma locale_rule_value:
  "locale_rule =
     \<lparr> pathReplacePattern = Some (RegExp
         \<lparr> program =
             RSeq RBol (RSeq (RChar CHR ''/'')
               (RSeq (RGroup 1
                        (RAlt (RSeq (RChar CHR ''e'') (RChar CHR ''n''))
                          (RAlt (RSeq (RChar CHR ''d'') (RChar CHR ''e''))
                                (RSeq (RChar CHR ''f'') (RChar CHR ''r'')))))
                     (RChar CHR ''/''))),
           group_count = 1 \<rparr>),
       pathReplaceReplacement = Some ''/:locale/'' \<rparr>"
  by code_simp

text \<open>C8: the configured pattern is taken for a regular expression exactly when it
  begins with \<open>^\<close> or contains one of \<open>. * + ? ^ $ { } ( ) | [ ]\<close> and the backslash;
  it is then handed to the \<open>RegExp\<close> constructor, and otherwise kept as a literal
  string.\<close>

theorem regex_detection:
  "is_regex_pattern pattern
     = (startsWith pattern ''^''
        \<or> (\<exists>c\<in>set pattern. c \<in> set (''.*+?^${}()|[]'' @ [CHR 0x5C])))
   \<and> (is_regex_pattern pattern \<longrightarrow>
        (\<forall>re. RegExp_new eng pattern = Some re \<longrightarrow>
           load_path_replace eng (Some [pattern, replacement])
             = \<lparr> pathReplacePattern = Some (RegExp re),
                 pathReplaceReplacement = Some replacement \<rparr>)
        \<and> pathReplacePattern (load_path_replace eng (Some [pattern, replacement]))
            \<noteq> Some (Literal pattern))
   \<and> (\<not> is_regex_pattern pattern \<longrightarrow>
        load_path_replace eng (Some [pattern, replacement])
          = \<lparr> pathReplacePattern = Some (Literal pattern),
              pathReplaceReplacement = Some replacement \<rparr>)"
proof (intro conjI impI allI)
  show "is_regex_pattern pattern
     = (startsWith pattern ''^''
        \<or> (\<exists>c\<in>set pattern. c \<in> set (''.*+?^${}()|[]'' @ [CHR 0x5C])))"
    by (rule is_regex_pattern_iff)
next
  fix re
  assume "is_regex_pattern pattern" "RegExp_new eng pattern = Some re"
  then show "load_path_replace eng (Some [pattern, replacement])
             = \<lparr> pathReplacePattern = Some (RegExp re),
                 pathReplaceReplacement = Some replacement \<rparr>"
    by (simp add: load_path_replace_def)
next
  assume "is_regex_pattern pattern"
  then show "pathReplacePattern (load_path_replace eng (Some [pattern, replacement]))
            \<noteq> Some (Literal pattern)"
    by (simp add: load_path_replace_def split: option.splits)
next
  assume "\<not> is_regex_pattern pattern"
  then show "load_path_replace eng (Some [pattern, replacement])
          = \<lparr> pathReplacePattern = Some (Literal pattern),
              pathReplaceReplacement = Some replacement \<rparr>"
    by (simp add: load_path_replace_def)
qed

theorem regex_detection_witness:
  "is_regex_pattern ''^/(en|de|fr)/''
   \<and> is_regex_pattern ''/v1.0/''
   \<and> \<not> is_regex_pattern ''/api/internal/''
   \<and> load_path_replace ecmascript (Some [''/api/internal/'', ''/api/''])
       = \<lparr> pathReplacePattern = Some (Literal ''/api/internal/''),
           pathReplaceReplacement = Some ''/api/'' \<rparr>
   \<and> pathReplacePattern (load_path_replace ecmascript (Some [''/v1.0/'', ''/v1/'']))
       \<noteq> Some (Literal ''/v1.0/'')"
proof -
  have a: "is_regex_pattern ''^/(en|de|fr)/''"
    using regex_detection [of "''^/(en|de|fr)/''" ecmascript "''/:locale/''"]
    by (simp add: startsWith_def)
  have b: "is_regex_pattern ''/v1.0/''"
    using regex_detection [of "''/v1.0/''" ecmascript "''/v1/''"] by simp
  have c: "\<not> is_regex_pattern ''/api/internal/''"
    using regex_detection [of "''/api/internal/''" ecmascript "''/api/''"]
    by (simp add: startsWith_def)
  from regex_detection [of "''/api/internal/''" ecmascript "''/api/''"] c
  have d: "load_path_replace ecmascript (Some [''/api/internal/'', ''/api/''])
       = \<lparr> pathReplacePattern = Some (Literal ''/api/internal/''),
           pathReplaceReplacement = Some ''/api/'' \<rparr>"
    by blast
  from regex_detection [of "''/v1.0/''" ecmascript "''/v1/''"] b
  have e: "pathReplacePattern (load_path_replace ecmascript (Some [''/v1.0/'', ''/v1/'']))
       \<noteq> Some (Literal ''/v1.0/'')"
    by blast
  from a b c d e show ?thesis by blast
qed

text \<open>C9: \<open>normalizePath\<close> returns the path as it is when no rule is configured, when the
  regular expression of the rule finds no match in the path, and when the literal
  pattern of the rule does not occur in it. With the pattern \<open>^/(en|de|fr)/\<close> and the
  replacement \<open>/:locale/\<close>, the paths \<open>/en/api/hash\<close>, \<open>/de/api/hash\<close> and
  \<open>/fr/api/hash\<close> become \<open>/:locale/api/hash\<close> and \<open>/es/api/hash\<close> stays.\<close>

theorem normalizePath_rule:
  "(pathReplacePattern cfg = None \<or> pathReplaceReplacement cfg = None \<longrightarrow>
      normalizePath eng cfg path = path)
   \<and> normalizePath eng (load_path_replace eng None) path = path
   \<and> (pathReplacePattern cfg = Some (RegExp re) \<and> RegExp_exec eng re path = None \<longrightarrow>
        normalizePath eng cfg path = path)
   \<and> (pathReplacePattern cfg = Some (Literal s) \<and> \<not> (\<exists>pre post. path = pre @ s @ post) \<longrightarrow>
        normalizePath eng cfg path = path)
   \<and> normalizePath ecmascript
        (load_path_replace ecmascript (Some [''^/(en|de|fr)/'', ''/:locale/'']))
        ''/en/api/hash'' = ''/:locale/api/hash''
   \<and> normalizePath ecmascript
        (load_path_replace ecmascript (Some [''^/(en|de|fr)/'', ''/:locale/'']))
        ''/de/api/hash'' = ''/:locale/api/hash''
   \<and> normalizePath ecmascript
        (load_path_replace ecmascript (Some [''^/(en|de|fr)/'', ''/:locale/'']))
        ''/fr/api/hash'' = ''/:locale/api/hash''
   \<and> normalizePath ecmascript
        (load_path_replace ecmascript (Some [''^/(en|de|fr)/'', ''/:locale/'']))
        ''/es/api/hash'' = ''/es/api/hash''"
proof (intro conjI impI)
  show "normalizePath eng cfg path = path"
    if "pathReplacePattern cfg = None \<or> pathReplaceReplacement cfg = None"
    using that by (auto simp: normalizePath_def pattern_falsy_def string_falsy_def)
  show "normalizePath eng (load_path_replace eng None) path = path"
    by (simp add: normalizePath_def load_path_replace_def pattern_falsy_def)
  show "normalizePath eng cfg path = path"
    if "pathReplacePattern cfg = Some (RegExp re) \<and> RegExp_exec eng re path = None"
    using that
    by (cases "pathReplaceReplacement cfg")
       (auto simp: normalizePath_def replace_regexp_def string_falsy_def)
  show "normalizePath eng cfg path = path"
    if "pathReplacePattern cfg = Some (Literal s) \<and> \<not> (\<exists>pre post. path = pre @ s @ post)"
  proof -
    from that have "replace_string path s replacement = path" for replacement
      by (intro replace_string_no_match) simp
    with that show ?thesis
      by (cases "pathReplaceReplacement cfg")
         (auto simp: normalizePath_def string_falsy_def)
  qed
  show "normalizePath ecmascript
        (load_path_replace ecmascript (Some [''^/(en|de|fr)/'', ''/:locale/'']))
        ''/en/api/hash'' = ''/:locale/api/hash''"
    by code_simp
  show "normalizePath ecmascript
        (load_path_replace ecmascript (Some [''^/(en|de|fr)/'', ''/:locale/'']))
        ''/de/api/hash'' = ''/:locale/api/hash''"
    by code_simp
  show "normalizePath ecmascript
        (load_path_replace ecmascript (Some [''^/(en|de|fr)/'', ''/:locale/'']))
        ''/fr/api/hash'' = ''/:locale/api/hash''"
    by code_simp
  show "normalizePath ecmascript
        (load_path_replace ecmascript (Some [''^/(en|de|fr)/'', ''/:locale/'']))
        ''/es/api/hash'' = ''/es/api/hash''"
    by code_simp
qed

lemma locale_rule_no_match:
  "RegExp_exec ecmascript
     \<lparr> program =
         RSeq RBol (RSeq (RChar CHR ''/'')
           (RSeq (RGroup 1
                    (RAlt (RSeq (RChar CHR ''e'') (RChar CHR ''n''))
                      (RAlt (RSeq (RChar CHR ''d'') (RChar CHR ''e''))
                            (RSeq (RChar CHR ''f'') (RChar CHR ''r'')))))
                 (RChar CHR ''/''))),
       group_count = 1 \<rparr> ''/es/api/hash'' = None"
  by code_simp

lemma internal_not_in_hash: "\<not> (\<exists>pre post. ''/api/hash'' = pre @ ''/api/internal/'' @ post)"
proof
  assume "\<exists>pre post. ''/api/hash'' = pre @ ''/api/internal/'' @ post"
  then obtain pre post where "''/api/hash'' = pre @ ''/api/internal/'' @ post" by blast
  then have "length ''/api/hash'' = length (pre @ ''/api/internal/'' @ post)" by simp
  then show False by simp
qed

theorem normalizePath_rule_witness:
  "normalizePath ecmascript no_rule ''/en/api/hash'' = ''/en/api/hash''
   \<and> normalizePath ecmascript locale_rule ''/es/api/hash'' = ''/es/api/hash''
   \<and> normalizePath ecmascript
        \<lparr> pathReplacePattern = Some (Literal ''/api/internal/''),
          pathReplaceReplacement = Some ''/api/'' \<rparr> ''/api/hash'' = ''/api/hash''
   \<and> normalizePath ecmascript locale_rule ''/fr/api/hash'' = ''/:locale/api/hash''"
proof -
  let ?re = "\<lparr> program =
         RSeq RBol (RSeq (RChar CHR ''/'')
           (RSeq (RGroup 1
                    (RAlt (RSeq (RChar CHR ''e'') (RChar CHR ''n''))
                      (RAlt (RSeq (RChar CHR ''d'') (RChar CHR ''e''))
                            (RSeq (RChar CHR ''f'') (RChar CHR ''r'')))))
                 (RChar CHR ''/''))),
       group_count = 1 \<rparr>"
  let ?lit = "\<lparr> pathReplacePattern = Some (Literal ''/api/internal/''),
          pathReplaceReplacement = Some ''/api/'' \<rparr> :: compiled path_replace"
  have "normalizePath ecmascript no_rule ''/en/api/hash'' = ''/en/api/hash''"
    using normalizePath_rule [of no_rule ecmascript "''/en/api/hash''"]
    by (simp add: no_rule_def)
  moreover have "normalizePath ecmascript locale_rule ''/es/api/hash'' = ''/es/api/hash''"
    using normalizePath_rule [of locale_rule ecmascript "''/es/api/hash''" ?re]
      locale_rule_no_match
    by (simp add: locale_rule_value)
  moreover have "normalizePath ecmascript ?lit ''/api/hash'' = ''/api/hash''"
    using normalizePath_rule [of ?lit ecmascript "''/api/hash''" _ "''/api/internal/''"]
      internal_not_in_hash
    by simp
  moreover have "normalizePath ecmascript locale_rule ''/fr/api/hash'' = ''/:locale/api/hash''"
    using normalizePath_rule [of locale_rule ecmascript "''/fr/api/hash''"]
    by (simp add: locale_rule_def)
  ultimately show ?thesis by blast
qed

text \<open>C10: a rule whose replacement is the empty string changes no path: the guard of
  \<open>normalizePath\<close> reads the empty replacement as no replacement.\<close>

theorem empty_replacement_disables:
  "normalizePath eng (load_path_replace eng (Some [pattern, []])) path = path"
  by (simp add: normalizePath_def load_path_replace_def string_falsy_def split: option.splits)

theorem empty_replacement_disables_witness:
  "normalizePath ecmascript (load_path_replace ecmascript (Some [''^/(en|de|fr)/'', []]))
     ''/en/api/hash'' = ''/en/api/hash''
   \<and> normalizePath ecmascript (load_path_replace ecmascript (Some [''/api/'', []]))
       ''/en/api/hash'' = ''/en/api/hash''"
  using empty_replacement_disables [of ecmascript "''^/(en|de|fr)/''" "''/en/api/hash''"]
    empty_replacement_disables [of ecmascript "''/api/''" "''/en/api/hash''"]
  by simp

end
